theory Spec2Isabelle
  imports Main
begin

section \<open>The logger of service.go\<close>

subsection \<open>Colour table (service.go, lines 12-17)\<close>

text \<open>The Go escape \<^verbatim>\<open>\033\<close> is the byte 0x1B.\<close>

definition colorReset :: string where
  "colorReset = CHR 0x1B # ''[0m''"

definition colorRed :: string where
  "colorRed = CHR 0x1B # ''[31m''"

definition colorGreen :: string where
  "colorGreen = CHR 0x1B # ''[32m''"

definition colorWhite :: string where
  "colorWhite = CHR 0x1B # ''[37m''"

subsection \<open>Go values the code works on\<close>

text \<open>
  A slice \<^verbatim>\<open>[]string\<close> is either nil (\<open>None\<close>) or present (\<open>Some xs\<close>, possibly with
  \<open>xs = []\<close>). \<open>len\<close> of a nil slice is 0 and \<open>range\<close> over it runs no iteration.
\<close>

type_synonym slice = "string list option"

fun len :: "slice \<Rightarrow> nat" where
  "len None = 0"
| "len (Some xs) = length xs"

fun elems :: "slice \<Rightarrow> string list" where
  "elems None = []"
| "elems (Some xs) = xs"

text \<open>
  A \<^verbatim>\<open>context.Context\<close> argument is an interface value: nil (\<open>None\<close>) or a context
  (\<open>Some c\<close>) whose \<^verbatim>\<open>Value(key)\<close> is the lookup \<open>c key\<close>; the lookup gives \<open>None\<close>
  where \<^verbatim>\<open>Value\<close> returns nil. Here a context that is present answers every key and
  touches no state, as the contexts of package \<^verbatim>\<open>context\<close> do; contexts whose method
  panics or has effects come with the functions \<open>_eff\<close> below. The values are of an
  arbitrary type \<open>'v\<close>. Calling a method on the nil interface panics, which the model keeps
  as an error value.
\<close>

type_synonym 'v "context" = "string \<Rightarrow> 'v option"

datatype panic = NilPointerDereference

fun is_nil :: "'a option \<Rightarrow> bool" where
  "is_nil None = True"
| "is_nil (Some c) = False"

fun Value :: "'v context option \<Rightarrow> string \<Rightarrow> panic + 'v option" where
  "Value None key = Inl NilPointerDereference"
| "Value (Some c) key = Inr (c key)"

text \<open>
  The process-wide sink of package \<^verbatim>\<open>log\<close> is the list of the messages handed to it, oldest
  first. \<^verbatim>\<open>log.Print\<close> and \<^verbatim>\<open>log.Printf\<close> hand over one message per call; the header and the
  final newline that the standard logger puts around a message are outside this repository
  and are not part of the message.
\<close>

type_synonym sink = "string list"

definition log_Print :: "string \<Rightarrow> sink \<Rightarrow> sink" where
  "log_Print msg out = out @ [msg]"

subsection \<open>The joining loops (service.go, lines 58-64 and 146-152)\<close>

text \<open>
  Both loops have the shape
  \<^verbatim>\<open>for i, x = range xs { if i > 0 { acc += ", " }; acc += x }\<close>;
  \<open>join_loop i xs acc\<close> runs the iterations from index \<open>i\<close> on.
\<close>

fun join_loop :: "nat \<Rightarrow> string list \<Rightarrow> string \<Rightarrow> string" where
  "join_loop i [] acc = acc"
| "join_loop i (x # xs) acc =
     join_loop (Suc i) xs ((if i > 0 then acc @ '', '' else acc) @ x)"

subsection \<open>Construction (service.go, lines 42-69)\<close>

record Service =
  contextKeys :: slice

definition NewLogger :: "slice \<Rightarrow> sink \<Rightarrow> Service \<times> sink" where
  "NewLogger keys0 out =
     (let service = \<lparr>contextKeys = keys0\<rparr> in
      if len keys0 = 0
      then (service, log_Print ''[ft_logging] Initialized with no context extraction'' out)
      else
        (let keys = join_loop 0 (elems keys0) [] in
         (service,
          log_Print (''[ft_logging] Initialized with context keys: ['' @ keys @ '']'') out)))"

subsection \<open>Context extraction (service.go, lines 118-154)\<close>

text \<open>
  The loop over the configured keys, with the parts collected so far. The parameter
  \<open>fmtv\<close> is the rendering of a value by the verb \<^verbatim>\<open>%v\<close> of package \<^verbatim>\<open>fmt\<close>, a function
  of the value; the verb \<^verbatim>\<open>%s\<close> copies a string as it is.
\<close>

fun collect_parts ::
  "('v \<Rightarrow> string) \<Rightarrow> 'v context option \<Rightarrow> string list \<Rightarrow> string list \<Rightarrow> panic + string list"
where
  "collect_parts fmtv ctx [] parts = Inr parts"
| "collect_parts fmtv ctx (key # keys) parts =
     (case Value ctx key of
        Inl e \<Rightarrow> Inl e
      | Inr None \<Rightarrow> collect_parts fmtv ctx keys parts
      | Inr (Some v) \<Rightarrow> collect_parts fmtv ctx keys (parts @ [key @ ''='' @ fmtv v]))"

definition extractContextInfo ::
  "('v \<Rightarrow> string) \<Rightarrow> Service \<Rightarrow> 'v context option \<Rightarrow> panic + string"
where
  "extractContextInfo fmtv s ctx =
     (if is_nil ctx \<or> len (contextKeys s) = 0 then Inr []
      else
        (case collect_parts fmtv ctx (elems (contextKeys s)) [] of
           Inl e \<Rightarrow> Inl e
         | Inr parts \<Rightarrow>
             if length parts = 0 then Inr [] else Inr (join_loop 0 parts [])))"

subsection \<open>Formatting and the three operations (service.go, lines 74-113)\<close>

definition LogWithColor ::
  "('v \<Rightarrow> string) \<Rightarrow> Service \<Rightarrow> 'v context option \<Rightarrow> string \<Rightarrow> string \<Rightarrow> string \<Rightarrow> sink
    \<Rightarrow> panic + sink"
where
  "LogWithColor fmtv s ctx color level message out =
     (case extractContextInfo fmtv s ctx of
        Inl e \<Rightarrow> Inl e
      | Inr contextInfo \<Rightarrow>
          (let contextPart = (if contextInfo \<noteq> [] then '' {'' @ contextInfo @ ''}'' else []);
               formattedMsg =
                 color @ ''['' @ level @ '']'' @ colorReset @ '' '' @ message @ contextPart
           in Inr (log_Print formattedMsg out)))"

definition Info ::
  "('v \<Rightarrow> string) \<Rightarrow> Service \<Rightarrow> 'v context option \<Rightarrow> string \<Rightarrow> sink \<Rightarrow> panic + sink"
where
  "Info fmtv s ctx message out = LogWithColor fmtv s ctx colorWhite ''INFO'' message out"

definition Success ::
  "('v \<Rightarrow> string) \<Rightarrow> Service \<Rightarrow> 'v context option \<Rightarrow> string \<Rightarrow> sink \<Rightarrow> panic + sink"
where
  "Success fmtv s ctx message out = LogWithColor fmtv s ctx colorGreen ''SUCCESS'' message out"

definition Error ::
  "('v \<Rightarrow> string) \<Rightarrow> Service \<Rightarrow> 'v context option \<Rightarrow> string \<Rightarrow> sink \<Rightarrow> panic + sink"
where
  "Error fmtv s ctx message out = LogWithColor fmtv s ctx colorRed ''ERROR'' message out"

subsection \<open>The same functions with the effects of the methods they call\<close>

text \<open>
  \<^verbatim>\<open>context.Context\<close> is an interface, and \<^verbatim>\<open>%v\<close> runs the \<^verbatim>\<open>String\<close>, \<^verbatim>\<open>Error\<close> or
  \<^verbatim>\<open>Format\<close> method of the value it renders. These methods are code of the caller: they
  may read and change program state, and \<^verbatim>\<open>Value\<close> may panic, as it does when the interface
  holds a nil pointer (such an interface value is not \<^verbatim>\<open>nil\<close>). The functions below are the
  functions above with these effects written out: \<open>'w\<close> is the state the methods work on,
  a context is its \<^verbatim>\<open>Value\<close> method, and the rendering \<open>fmtv\<close> takes and returns the
  state. Package \<^verbatim>\<open>fmt\<close> recovers a panic of the method it runs, so rendering returns.
\<close>

type_synonym ('v, 'w) Context = "string \<Rightarrow> 'w \<Rightarrow> panic + ('v option \<times> 'w)"

fun Value_eff :: "('v, 'w) Context option \<Rightarrow> string \<Rightarrow> 'w \<Rightarrow> panic + ('v option \<times> 'w)" where
  "Value_eff None key w = Inl NilPointerDereference"
| "Value_eff (Some c) key w = c key w"

fun collect_parts_eff ::
  "('v \<Rightarrow> 'w \<Rightarrow> string \<times> 'w) \<Rightarrow> ('v, 'w) Context option \<Rightarrow> string list \<Rightarrow> string list \<Rightarrow> 'w
    \<Rightarrow> panic + (string list \<times> 'w)"
where
  "collect_parts_eff fmtv ctx [] parts w = Inr (parts, w)"
| "collect_parts_eff fmtv ctx (key # keys) parts w =
     (case Value_eff ctx key w of
        Inl e \<Rightarrow> Inl e
      | Inr (None, w1) \<Rightarrow> collect_parts_eff fmtv ctx keys parts w1
      | Inr (Some v, w1) \<Rightarrow>
          (case fmtv v w1 of
             (str, w2) \<Rightarrow> collect_parts_eff fmtv ctx keys (parts @ [key @ ''='' @ str]) w2))"

definition extractContextInfo_eff ::
  "('v \<Rightarrow> 'w \<Rightarrow> string \<times> 'w) \<Rightarrow> Service \<Rightarrow> ('v, 'w) Context option \<Rightarrow> 'w
    \<Rightarrow> panic + (string \<times> 'w)"
where
  "extractContextInfo_eff fmtv s ctx w =
     (if is_nil ctx \<or> len (contextKeys s) = 0 then Inr ([], w)
      else
        (case collect_parts_eff fmtv ctx (elems (contextKeys s)) [] w of
           Inl e \<Rightarrow> Inl e
         | Inr (parts, w1) \<Rightarrow>
             if length parts = 0 then Inr ([], w1) else Inr (join_loop 0 parts [], w1)))"

definition LogWithColor_eff ::
  "('v \<Rightarrow> 'w \<Rightarrow> string \<times> 'w) \<Rightarrow> Service \<Rightarrow> ('v, 'w) Context option \<Rightarrow> string \<Rightarrow> string
    \<Rightarrow> string \<Rightarrow> 'w \<Rightarrow> sink \<Rightarrow> panic + ('w \<times> sink)"
where
  "LogWithColor_eff fmtv s ctx color level message w out =
     (case extractContextInfo_eff fmtv s ctx w of
        Inl e \<Rightarrow> Inl e
      | Inr (contextInfo, w1) \<Rightarrow>
          (let contextPart = (if contextInfo \<noteq> [] then '' {'' @ contextInfo @ ''}'' else []);
               formattedMsg =
                 color @ ''['' @ level @ '']'' @ colorReset @ '' '' @ message @ contextPart
           in Inr (w1, log_Print formattedMsg out)))"

definition Info_eff ::
  "('v \<Rightarrow> 'w \<Rightarrow> string \<times> 'w) \<Rightarrow> Service \<Rightarrow> ('v, 'w) Context option \<Rightarrow> string \<Rightarrow> 'w \<Rightarrow> sink
    \<Rightarrow> panic + ('w \<times> sink)"
where
  "Info_eff fmtv s ctx message w out =
     LogWithColor_eff fmtv s ctx colorWhite ''INFO'' message w out"

definition Success_eff ::
  "('v \<Rightarrow> 'w \<Rightarrow> string \<times> 'w) \<Rightarrow> Service \<Rightarrow> ('v, 'w) Context option \<Rightarrow> string \<Rightarrow> 'w \<Rightarrow> sink
    \<Rightarrow> panic + ('w \<times> sink)"
where
  "Success_eff fmtv s ctx message w out =
     LogWithColor_eff fmtv s ctx colorGreen ''SUCCESS'' message w out"

definition Error_eff ::
  "('v \<Rightarrow> 'w \<Rightarrow> string \<times> 'w) \<Rightarrow> Service \<Rightarrow> ('v, 'w) Context option \<Rightarrow> string \<Rightarrow> 'w \<Rightarrow> sink
    \<Rightarrow> panic + ('w \<times> sink)"
where
  "Error_eff fmtv s ctx message w out =
     LogWithColor_eff fmtv s ctx colorRed ''ERROR'' message w out"

text \<open>A rendering that neither reads nor changes the state.\<close>

definition stateless :: "('v \<Rightarrow> string) \<Rightarrow> 'v \<Rightarrow> 'w \<Rightarrow> string \<times> 'w" where
  "stateless f v w = (f v, w)"

text \<open>
  The interface value of a context without effects: nil for the absent context, else a
  context whose \<^verbatim>\<open>Value\<close> returns the lookup's answer and leaves the state as it is.
\<close>

definition as_Context :: "'v context option \<Rightarrow> ('v, 'w) Context option" where
  "as_Context ctx = (case ctx of None \<Rightarrow> None | Some c \<Rightarrow> Some (\<lambda>k w. Inr (c k, w)))"

text \<open>The method \<^verbatim>\<open>Value\<close> of a nil pointer that sits in the interface.\<close>

definition nil_pointer :: "('v, 'w) Context" where
  "nil_pointer = (\<lambda>k w. Inl NilPointerDereference)"

subsection \<open>The specification's vocabulary\<close>

text \<open>
  These definitions follow the words of the specification, not the code; the theorems
  below compare the code with them.

  ``Comma-space separated'': the strings in their order with \<^verbatim>\<open>", "\<close> between neighbours.
\<close>

fun comma_join :: "string list \<Rightarrow> string" where
  "comma_join [] = []"
| "comma_join [x] = x"
| "comma_join (x # y # ys) = x @ '', '' @ comma_join (y # ys)"

text \<open>The lookup of a key in a context that may be absent.\<close>

fun lookup :: "'v context option \<Rightarrow> string \<Rightarrow> 'v option" where
  "lookup None k = None"
| "lookup (Some c) k = c k"

text \<open>The configured keys that resolve in the context, in their configured order.\<close>

definition resolved_keys :: "string list \<Rightarrow> 'v context option \<Rightarrow> string list" where
  "resolved_keys K ctx = filter (\<lambda>k. \<not> is_nil (lookup ctx k)) K"

text \<open>The rendering \<^verbatim>\<open>key=value\<close> of a key; a key that does not resolve has none.\<close>

definition pair_of :: "('v \<Rightarrow> string) \<Rightarrow> 'v context option \<Rightarrow> string \<Rightarrow> string" where
  "pair_of fmtv ctx k = (case lookup ctx k of None \<Rightarrow> [] | Some v \<Rightarrow> k @ ''='' @ fmtv v)"

text \<open>``The pairs \<open>k=v\<close> for the keys \<open>k\<close> of \<open>K\<close> whose lookup is defined, in the order of \<open>K\<close>.''\<close>

definition context_pairs ::
  "('v \<Rightarrow> string) \<Rightarrow> string list \<Rightarrow> 'v context option \<Rightarrow> string list"
where
  "context_pairs fmtv K ctx = map (pair_of fmtv ctx) (resolved_keys K ctx)"

text \<open>The line of a severity up to and including the message, before any context section.\<close>

definition plain_line :: "string \<Rightarrow> string \<Rightarrow> string \<Rightarrow> string" where
  "plain_line color level message = color @ ''['' @ level @ '']'' @ colorReset @ '' '' @ message"

text \<open>
  The context section that follows the message: nothing for an empty extractor result,
  else a space and the result between braces.
\<close>

definition context_section :: "string \<Rightarrow> string" where
  "context_section e = (if e = [] then [] else '' {'' @ e @ ''}'')"

text \<open>The two characters that delimit a context section.\<close>

definition brace :: "char \<Rightarrow> bool" where
  "brace ch = (ch = CHR ''{'' \<or> ch = CHR ''}'')"

subsection \<open>Contexts and key lists of the repository's tests\<close>

text \<open>\<^verbatim>\<open>context.Background()\<close>: no key resolves.\<close>

definition background :: "string context" where
  "background = (\<lambda>k. None)"

text \<open>The context of \<^verbatim>\<open>TestContextExtraction\<close>.\<close>

definition request_ctx :: "string context" where
  "request_ctx = (background(''request_id'' \<mapsto> ''abc123''))(''user_id'' \<mapsto> ''user-456'')"

definition request_keys :: "string list" where
  "request_keys = [''request_id'', ''user_id'', ''trace_id'']"

text \<open>
  A value whose \<^verbatim>\<open>String\<close> method returns its text followed by one \<^verbatim>\<open>+\<close> for each
  earlier call, and counts the call; the state is the number of calls so far.
\<close>

definition counting :: "string \<Rightarrow> nat \<Rightarrow> string \<times> nat" where
  "counting v n = (v @ replicate n CHR ''+'', Suc n)"

section \<open>Properties of the loops\<close>

lemma join_loop_Suc:
  "join_loop (Suc i) xs acc = acc @ concat (map (\<lambda>x. '', '' @ x) xs)"
  by (induction xs arbitrary: i acc) simp_all

lemma comma_join_Cons: "comma_join (x # xs) = x @ concat (map (\<lambda>y. '', '' @ y) xs)"
  by (induction xs arbitrary: x) simp_all

lemma join_loop_comma_join: "join_loop 0 xs [] = comma_join xs"
  by (cases xs) (simp_all add: join_loop_Suc comma_join_Cons)

lemma collect_parts_nil: "collect_parts fmtv None (k # keys) parts = Inl NilPointerDereference"
  by simp

lemma collect_parts_Some:
  "collect_parts fmtv (Some c) keys parts = Inr (parts @ context_pairs fmtv keys (Some c))"
proof (induction keys arbitrary: parts)
  case Nil
  show ?case by (simp add: context_pairs_def resolved_keys_def)
next
  case (Cons k keys)
  show ?case
  proof (cases "c k")
    case None
    then show ?thesis
      using Cons.IH [of parts] by (simp add: context_pairs_def resolved_keys_def)
  next
    case (Some v)
    then show ?thesis
      using Cons.IH [of "parts @ [k @ ''='' @ fmtv v]"]
      by (simp add: context_pairs_def resolved_keys_def pair_of_def)
  qed
qed

lemma context_pairs_nil_ctx: "context_pairs fmtv K None = []"
  by (simp add: context_pairs_def resolved_keys_def)

lemma comma_join_eq_Nil: "comma_join xs = [] \<Longrightarrow> x \<in> set xs \<Longrightarrow> x = []"
  by (induction xs rule: comma_join.induct) simp_all

lemma pair_of_resolved_ne: "k \<in> set (resolved_keys K ctx) \<Longrightarrow> pair_of fmtv ctx k \<noteq> []"
  by (cases "lookup ctx k") (simp_all add: resolved_keys_def pair_of_def)

lemma comma_join_context_pairs_Nil:
  "comma_join (context_pairs fmtv K ctx) = [] \<longleftrightarrow> resolved_keys K ctx = []"
proof
  assume e: "comma_join (context_pairs fmtv K ctx) = []"
  have "k \<notin> set (resolved_keys K ctx)" for k
  proof
    assume k: "k \<in> set (resolved_keys K ctx)"
    then have "pair_of fmtv ctx k \<in> set (context_pairs fmtv K ctx)"
      by (simp add: context_pairs_def)
    with e have "pair_of fmtv ctx k = []"
      by (rule comma_join_eq_Nil)
    with pair_of_resolved_ne [OF k, where fmtv = fmtv] show False
      by simp
  qed
  then show "resolved_keys K ctx = []"
    by (cases "resolved_keys K ctx") auto
next
  assume "resolved_keys K ctx = []"
  then show "comma_join (context_pairs fmtv K ctx) = []"
    by (simp add: context_pairs_def)
qed

lemma is_nil_iff: "is_nil x \<longleftrightarrow> x = None"
  by (cases x) simp_all

lemma set_resolved_keys:
  "set (resolved_keys K ctx) = {k \<in> set K. lookup ctx k \<noteq> None}"
  by (auto simp: resolved_keys_def is_nil_iff)

text \<open>Extraction never panics, and its result is the joined pairs of the resolving keys.\<close>

lemma extractContextInfo_eq:
  "extractContextInfo fmtv s ctx =
     Inr (comma_join (context_pairs fmtv (elems (contextKeys s)) ctx))"
proof (cases ctx)
  case None
  then show ?thesis by (simp add: extractContextInfo_def context_pairs_nil_ctx)
next
  case (Some c)
  show ?thesis
  proof (cases "len (contextKeys s) = 0")
    case True
    then have "elems (contextKeys s) = []" by (cases "contextKeys s") simp_all
    with True Some show ?thesis
      by (simp add: extractContextInfo_def context_pairs_def resolved_keys_def)
  next
    case False
    with Some show ?thesis
      by (simp add: extractContextInfo_def collect_parts_Some join_loop_comma_join)
  qed
qed

lemma LogWithColor_eq:
  "LogWithColor fmtv s ctx color level message out =
     Inr (out @ [plain_line color level message @
       (if resolved_keys (elems (contextKeys s)) ctx = [] then []
        else '' {'' @ comma_join (context_pairs fmtv (elems (contextKeys s)) ctx) @ ''}'')])"
  by (simp add: LogWithColor_def extractContextInfo_eq comma_join_context_pairs_Nil
      plain_line_def log_Print_def Let_def)

lemma resolved_keys_no_key:
  "len (contextKeys s) = 0 \<or> is_nil ctx \<or> (\<forall>k \<in> set (elems (contextKeys s)). lookup ctx k = None)
   \<Longrightarrow> resolved_keys (elems (contextKeys s)) ctx = []"
proof -
  assume h: "len (contextKeys s) = 0 \<or> is_nil ctx
     \<or> (\<forall>k \<in> set (elems (contextKeys s)). lookup ctx k = None)"
  have "lookup ctx k = None" if "k \<in> set (elems (contextKeys s))" for k
  proof -
    from h show ?thesis
    proof (elim disjE)
      assume "len (contextKeys s) = 0"
      then have "elems (contextKeys s) = []" by (cases "contextKeys s") simp_all
      with that show ?thesis by simp
    next
      assume "is_nil ctx"
      then show ?thesis by (cases ctx) simp_all
    next
      assume "\<forall>k \<in> set (elems (contextKeys s)). lookup ctx k = None"
      with that show ?thesis by simp
    qed
  qed
  then have "set (resolved_keys (elems (contextKeys s)) ctx) = {}"
    by (simp add: set_resolved_keys)
  then show ?thesis by simp
qed

lemma filter_brace_plain_line:
  "level \<in> {''INFO'', ''SUCCESS'', ''ERROR''} \<Longrightarrow> color \<in> {colorWhite, colorGreen, colorRed}
   \<Longrightarrow> filter brace (plain_line color level message) = filter brace message"
  by (auto simp: plain_line_def brace_def colorWhite_def colorGreen_def colorRed_def colorReset_def)

lemma resolved_keys_append:
  "resolved_keys (xs @ ys) ctx = resolved_keys xs ctx @ resolved_keys ys ctx"
  by (simp add: resolved_keys_def)

lemma resolved_keys_Cons_Some:
  "lookup ctx k = Some v \<Longrightarrow> resolved_keys (k # ys) ctx = k # resolved_keys ys ctx"
  by (simp add: resolved_keys_def)

lemma pair_of_Some: "lookup ctx k = Some v \<Longrightarrow> pair_of fmtv ctx k = k @ ''='' @ fmtv v"
  by (simp add: pair_of_def)

lemma count_list_resolved_keys:
  "lookup ctx k = Some v \<Longrightarrow> count_list (resolved_keys K ctx) k = count_list K k"
  by (induction K) (auto simp: resolved_keys_def)

lemma collect_parts_eq:
  "lookup ctx k = Some v \<Longrightarrow> collect_parts fmtv ctx K [] = Inr (context_pairs fmtv K ctx)"
  by (cases ctx) (simp_all add: collect_parts_Some)

text \<open>The part made at a configured position of a resolving key.\<close>

lemma context_pairs_at_position:
  assumes "lookup ctx k = Some v" and "i < length K" and "K ! i = k"
  shows "length (resolved_keys (take i K) ctx) < length (context_pairs fmtv K ctx)
    \<and> context_pairs fmtv K ctx ! length (resolved_keys (take i K) ctx) = k @ ''='' @ fmtv v"
proof -
  have d: "drop i K = k # drop (Suc i) K"
    using Cons_nth_drop_Suc [OF assms(2)] assms(3) by simp
  have "resolved_keys K ctx = resolved_keys (take i K) ctx @ resolved_keys (drop i K) ctx"
    using resolved_keys_append [of "take i K" "drop i K" ctx] by simp
  also have "resolved_keys (drop i K) ctx = k # resolved_keys (drop (Suc i) K) ctx"
    using resolved_keys_Cons_Some [OF assms(1), of "drop (Suc i) K"] d by simp
  finally have "resolved_keys K ctx =
      resolved_keys (take i K) ctx @ k # resolved_keys (drop (Suc i) K) ctx" .
  then have "context_pairs fmtv K ctx =
      map (pair_of fmtv ctx) (resolved_keys (take i K) ctx) @
      (k @ ''='' @ fmtv v) # map (pair_of fmtv ctx) (resolved_keys (drop (Suc i) K) ctx)"
    by (simp add: context_pairs_def pair_of_Some [OF assms(1)])
  then show ?thesis
    by (simp add: nth_append)
qed

subsection \<open>The functions with effects\<close>

text \<open>At arguments without effects they are the functions of the first model.\<close>

lemma is_nil_as_Context: "is_nil (as_Context ctx) = is_nil ctx"
  by (cases ctx) (simp_all add: as_Context_def)

lemma collect_parts_eff_stateless:
  "collect_parts_eff (stateless f) (as_Context ctx) keys parts w =
     (case collect_parts f ctx keys parts of Inl e \<Rightarrow> Inl e | Inr ps \<Rightarrow> Inr (ps, w))"
proof (induction keys arbitrary: parts)
  case Nil
  show ?case by simp
next
  case (Cons k keys)
  show ?case
  proof (cases ctx)
    case None
    then show ?thesis by (simp add: as_Context_def)
  next
    case (Some c)
    show ?thesis
    proof (cases "c k")
      case None
      with Some Cons.IH [of parts] show ?thesis by (simp add: as_Context_def)
    next
      case (Some v)
      with \<open>ctx = Some c\<close> Cons.IH [of "parts @ [k @ ''='' @ f v]"] show ?thesis
        by (simp add: as_Context_def stateless_def)
    qed
  qed
qed

lemma extractContextInfo_eff_stateless:
  "extractContextInfo_eff (stateless f) s (as_Context ctx) w =
     Inr (comma_join (context_pairs f (elems (contextKeys s)) ctx), w)"
proof -
  have "extractContextInfo_eff (stateless f) s (as_Context ctx) w =
      (case extractContextInfo f s ctx of Inl e \<Rightarrow> Inl e | Inr r \<Rightarrow> Inr (r, w))"
    by (simp add: extractContextInfo_eff_def extractContextInfo_def is_nil_as_Context
        collect_parts_eff_stateless split: sum.splits)
  then show ?thesis by (simp add: extractContextInfo_eq)
qed

lemma LogWithColor_eff_line:
  "extractContextInfo_eff fmtv s ctx w = Inr (e, w') \<Longrightarrow>
   LogWithColor_eff fmtv s ctx color level message w out =
     Inr (w', out @ [plain_line color level message @ context_section e])"
  by (simp add: LogWithColor_eff_def plain_line_def context_section_def log_Print_def)



text \<open>A nil pointer in the interface passes the guard, and the first lookup panics.\<close>

lemma nil_pointer_panics:
  "\<not> is_nil (Some nil_pointer)
   \<and> Info_eff fmtv \<lparr>contextKeys = Some (k # keys)\<rparr> (Some nil_pointer) message w out =
       Inl NilPointerDereference"
  by (simp add: Info_eff_def LogWithColor_eff_def extractContextInfo_eff_def nil_pointer_def)

lemma stateless_eq: "\<forall>v w. fmtv v w = (f v, w) \<Longrightarrow> fmtv = stateless f"
  by (intro ext) (simp add: stateless_def)

lemma as_Context_eq:
  "is_nil ctx \<or> (\<forall>k w. Value_eff ctx k w = Inr (g k, w)) \<Longrightarrow>
   ctx = as_Context (if is_nil ctx then None else Some g)"
proof (cases ctx)
  case None
  then show ?thesis by (simp add: as_Context_def)
next
  case (Some c)
  assume "is_nil ctx \<or> (\<forall>k w. Value_eff ctx k w = Inr (g k, w))"
  with Some have "c k w = Inr (g k, w)" for k w by simp
  then have "c = (\<lambda>k w. Inr (g k, w))" by (intro ext)
  with Some show ?thesis by (simp add: as_Context_def)
qed

section \<open>The claims\<close>

text \<open>
  Claim C1. For every configured key list \<open>K\<close> and every context lookup \<open>C\<close>, the context
  section of the emitted line, when present, holds exactly the pairs \<open>k=v\<close> for the keys \<open>k\<close>
  of \<open>K\<close> whose lookup in \<open>C\<close> is defined, in the order of \<open>K\<close> and joined with
  \<^verbatim>\<open>", "\<close>; a key of \<open>K\<close> absent from \<open>C\<close> is not rendered, and neither is a key of
  \<open>C\<close> that is not in \<open>K\<close>. The extractor returns the joined pairs of the resolving
  keys, these keys are the keys of \<open>K\<close> with a defined lookup filtered in place, and the
  line carries the joined pairs between braces exactly when some key resolves.
\<close>

theorem C1_context_section:
  "extractContextInfo fmtv s ctx =
     Inr (comma_join (context_pairs fmtv (elems (contextKeys s)) ctx))
   \<and> context_pairs fmtv (elems (contextKeys s)) ctx =
       map (pair_of fmtv ctx) (filter (\<lambda>k. \<not> is_nil (lookup ctx k)) (elems (contextKeys s)))
   \<and> set (resolved_keys (elems (contextKeys s)) ctx) =
       {k \<in> set (elems (contextKeys s)). lookup ctx k \<noteq> None}
   \<and> LogWithColor fmtv s ctx color level message out =
       Inr (out @ [plain_line color level message @
         (if resolved_keys (elems (contextKeys s)) ctx = [] then []
          else '' {'' @ comma_join (context_pairs fmtv (elems (contextKeys s)) ctx) @ ''}'')])"
proof (intro conjI)
  show "extractContextInfo fmtv s ctx =
     Inr (comma_join (context_pairs fmtv (elems (contextKeys s)) ctx))"
    by (rule extractContextInfo_eq)
  show "context_pairs fmtv (elems (contextKeys s)) ctx =
       map (pair_of fmtv ctx) (filter (\<lambda>k. \<not> is_nil (lookup ctx k)) (elems (contextKeys s)))"
    by (simp only: context_pairs_def resolved_keys_def)
  show "set (resolved_keys (elems (contextKeys s)) ctx) =
       {k \<in> set (elems (contextKeys s)). lookup ctx k \<noteq> None}"
    by (rule set_resolved_keys)
  show "LogWithColor fmtv s ctx color level message out =
       Inr (out @ [plain_line color level message @
         (if resolved_keys (elems (contextKeys s)) ctx = [] then []
          else '' {'' @ comma_join (context_pairs fmtv (elems (contextKeys s)) ctx) @ ''}'')])"
    by (rule LogWithColor_eq)
qed

text \<open>The run of \<^verbatim>\<open>TestContextExtraction\<close>, with string values rendered as themselves.\<close>

theorem C1_context_section_witness:
  "extractContextInfo id \<lparr>contextKeys = Some request_keys\<rparr> (Some request_ctx) =
     Inr ''request_id=abc123, user_id=user-456''
   \<and> resolved_keys request_keys (Some request_ctx) = [''request_id'', ''user_id'']
   \<and> LogWithColor id \<lparr>contextKeys = Some request_keys\<rparr> (Some request_ctx)
        colorWhite ''INFO'' ''test message'' [] =
       Inr [plain_line colorWhite ''INFO'' ''test message'' @
            '' {request_id=abc123, user_id=user-456}'']"
  using C1_context_section [of id "\<lparr>contextKeys = Some request_keys\<rparr>" "Some request_ctx"
      colorWhite "''INFO''" "''test message''" "[]"]
  by (simp add: context_pairs_def resolved_keys_def pair_of_def request_keys_def
      request_ctx_def background_def)


text \<open>
  Claim C2. For each of the three operations, every message and every context, the
  emitted line is the colour code of the severity, the level between square brackets, the
  reset code, one space, the message as it is and, only when the extractor's result is
  not empty, a space and the result between braces.
\<close>

theorem C2_line_format:
  "\<exists>e. extractContextInfo fmtv s ctx = Inr e
     \<and> Info fmtv s ctx message out =
         Inr (out @ [colorWhite @ ''[INFO]'' @ colorReset @ '' '' @ message @
                     (if e = [] then [] else '' {'' @ e @ ''}'')])
     \<and> Success fmtv s ctx message out =
         Inr (out @ [colorGreen @ ''[SUCCESS]'' @ colorReset @ '' '' @ message @
                     (if e = [] then [] else '' {'' @ e @ ''}'')])
     \<and> Error fmtv s ctx message out =
         Inr (out @ [colorRed @ ''[ERROR]'' @ colorReset @ '' '' @ message @
                     (if e = [] then [] else '' {'' @ e @ ''}'')])"
  by (simp add: Info_def Success_def Error_def LogWithColor_def extractContextInfo_eq
      log_Print_def Let_def)

text \<open>
  Claim C3, as amended. For every logging call in which the configured key list is empty
  or absent, or the context is absent, or no configured key resolves in the context, the
  emitted line is exactly the colour code, the bracketed level, the reset code, one space
  and the message: nothing follows the message, and the braces of the line are exactly
  the braces of the message, so that no context section appears, not even an empty one.
\<close>

theorem C3_no_context_section:
  assumes "len (contextKeys s) = 0 \<or> is_nil ctx
     \<or> (\<forall>k \<in> set (elems (contextKeys s)). lookup ctx k = None)"
  shows "Info fmtv s ctx message out =
           Inr (out @ [colorWhite @ ''[INFO]'' @ colorReset @ '' '' @ message])
     \<and> Success fmtv s ctx message out =
           Inr (out @ [colorGreen @ ''[SUCCESS]'' @ colorReset @ '' '' @ message])
     \<and> Error fmtv s ctx message out =
           Inr (out @ [colorRed @ ''[ERROR]'' @ colorReset @ '' '' @ message])
     \<and> filter brace (colorWhite @ ''[INFO]'' @ colorReset @ '' '' @ message) = filter brace message
     \<and> filter brace (colorGreen @ ''[SUCCESS]'' @ colorReset @ '' '' @ message) = filter brace message
     \<and> filter brace (colorRed @ ''[ERROR]'' @ colorReset @ '' '' @ message) = filter brace message"
proof -
  have r: "resolved_keys (elems (contextKeys s)) ctx = []"
    using assms by (rule resolved_keys_no_key)
  have l: "LogWithColor fmtv s ctx color level message out =
      Inr (out @ [color @ ''['' @ level @ '']'' @ colorReset @ '' '' @ message])" for color level
    using LogWithColor_eq [of fmtv s ctx color level message out] r
    by (simp add: plain_line_def)
  have b: "filter brace (color @ ''['' @ level @ '']'' @ colorReset @ '' '' @ message)
      = filter brace message"
    if "level \<in> {''INFO'', ''SUCCESS'', ''ERROR''}" "color \<in> {colorWhite, colorGreen, colorRed}"
    for color level
    using filter_brace_plain_line [OF that] by (simp add: plain_line_def)
  show ?thesis
    using l [of colorWhite "''INFO''"] l [of colorGreen "''SUCCESS''"] l [of colorRed "''ERROR''"]
      b [of "''INFO''" colorWhite] b [of "''SUCCESS''" colorGreen] b [of "''ERROR''" colorRed]
    by (simp add: Info_def Success_def Error_def)
qed

text \<open>
  The run of \<^verbatim>\<open>TestNoContextValues\<close>: two configured keys, neither of them in the
  context.
\<close>

theorem C3_no_context_section_witness:
  "lookup (Some background) ''request_id'' = None
   \<and> lookup (Some background) ''user_id'' = None
   \<and> Info id \<lparr>contextKeys = Some [''request_id'', ''user_id'']\<rparr> (Some background)
        ''no context values'' [] =
       Inr [colorWhite @ ''[INFO]'' @ colorReset @ '' no context values'']
   \<and> filter brace (colorWhite @ ''[INFO]'' @ colorReset @ '' no context values'') = []"
  using C3_no_context_section [of "\<lparr>contextKeys = Some [''request_id'', ''user_id'']\<rparr>"
      "Some background" id "''no context values''" "[]"]
  by (simp add: background_def brace_def)

text \<open>
  Claim C3 as first stated asks for a line with no trailing space and no brace anywhere.
  The message is copied as it is: with no key configured, the message \<^verbatim>\<open>{}\<close> gives a line
  that holds both braces, and the empty message gives a line that ends with the space
  that separates the reset code from the message.
\<close>

theorem C3_counterexample:
  "len (contextKeys \<lparr>contextKeys = None\<rparr>) = 0
   \<and> Info id \<lparr>contextKeys = None\<rparr> (Some background) ''{}'' [] =
       Inr [colorWhite @ ''[INFO]'' @ colorReset @ '' {}'']
   \<and> CHR ''{'' \<in> set (colorWhite @ ''[INFO]'' @ colorReset @ '' {}'')
   \<and> CHR ''}'' \<in> set (colorWhite @ ''[INFO]'' @ colorReset @ '' {}'')
   \<and> Info id \<lparr>contextKeys = None\<rparr> (Some background) [] [] =
       Inr [colorWhite @ ''[INFO]'' @ colorReset @ '' '']
   \<and> last (colorWhite @ ''[INFO]'' @ colorReset @ '' '') = CHR '' ''"
  by (simp add: Info_def LogWithColor_def extractContextInfo_def log_Print_def)




text \<open>
  Claim C5. Every Info call emits the white code (\<^verbatim>\<open>ESC[37m\<close>) and the label
  \<^verbatim>\<open>[INFO]\<close>, every Success call the green code (\<^verbatim>\<open>ESC[32m\<close>) and \<^verbatim>\<open>[SUCCESS]\<close>, every
  Error call the red code (\<^verbatim>\<open>ESC[31m\<close>) and \<^verbatim>\<open>[ERROR]\<close>; in every line the reset code
  (\<^verbatim>\<open>ESC[0m\<close>) stands immediately after the bracketed level and is followed by a space
  and the rest of the line, so it is not at the end of the line.
\<close>

theorem C5_colors:
  "\<exists>rest.
     Info fmtv s ctx message out =
       Inr (out @ [CHR 0x1B # ''[37m'' @ ''[INFO]'' @ CHR 0x1B # ''[0m'' @ '' '' @ rest])
     \<and> Success fmtv s ctx message out =
       Inr (out @ [CHR 0x1B # ''[32m'' @ ''[SUCCESS]'' @ CHR 0x1B # ''[0m'' @ '' '' @ rest])
     \<and> Error fmtv s ctx message out =
       Inr (out @ [CHR 0x1B # ''[31m'' @ ''[ERROR]'' @ CHR 0x1B # ''[0m'' @ '' '' @ rest])
     \<and> colorWhite = CHR 0x1B # ''[37m'' \<and> colorGreen = CHR 0x1B # ''[32m''
     \<and> colorRed = CHR 0x1B # ''[31m'' \<and> colorReset = CHR 0x1B # ''[0m''"
  by (simp add: Info_def Success_def Error_def LogWithColor_eq plain_line_def
      colorWhite_def colorGreen_def colorRed_def colorReset_def)

text \<open>
  Claim C6. Construction with no configured key (a nil or an empty list) emits exactly
  \<^verbatim>\<open>[ft_logging] Initialized with no context extraction\<close>; construction with a non-empty
  list emits exactly \<^verbatim>\<open>[ft_logging] Initialized with context keys: [k1, k2, ...]\<close>, the keys
  joined with \<^verbatim>\<open>", "\<close> in the configured order, as they were passed in and with their
  duplicates; the list is stored as it was passed in.
\<close>

theorem C6_announcement:
  "(len keys0 = 0 \<longrightarrow>
      NewLogger keys0 out =
        (\<lparr>contextKeys = keys0\<rparr>,
         out @ [''[ft_logging] Initialized with no context extraction'']))
   \<and> (len keys0 \<noteq> 0 \<longrightarrow>
      NewLogger keys0 out =
        (\<lparr>contextKeys = keys0\<rparr>,
         out @ [''[ft_logging] Initialized with context keys: ['' @
                comma_join (elems keys0) @ '']'']))"
  by (simp add: NewLogger_def log_Print_def join_loop_comma_join Let_def)

text \<open>
  The nil list, and a list that names \<^verbatim>\<open>user_id\<close> twice.
\<close>

theorem C6_announcement_witness:
  "len None = 0
   \<and> NewLogger None [] =
       (\<lparr>contextKeys = None\<rparr>, [''[ft_logging] Initialized with no context extraction''])
   \<and> len (Some [''user_id'', ''request_id'', ''user_id'']) \<noteq> 0
   \<and> NewLogger (Some [''user_id'', ''request_id'', ''user_id'']) [] =
       (\<lparr>contextKeys = Some [''user_id'', ''request_id'', ''user_id'']\<rparr>,
        [''[ft_logging] Initialized with context keys: [user_id, request_id, user_id]''])"
  using C6_announcement [of None "[]"]
    C6_announcement [of "Some [''user_id'', ''request_id'', ''user_id'']" "[]"]
  by simp

text \<open>
  Claim C7. A logger constructed with a nil key list and a logger constructed with an
  empty key list behave alike: both announce ``no context extraction'', and for every
  later call, with any context and any message, both extract nothing and emit the same
  line, which has no context section.
\<close>

theorem C7_nil_and_empty_keys:
  "snd (NewLogger None out) = out @ [''[ft_logging] Initialized with no context extraction'']
   \<and> snd (NewLogger (Some []) out) =
       out @ [''[ft_logging] Initialized with no context extraction'']
   \<and> extractContextInfo fmtv (fst (NewLogger None out)) ctx = Inr []
   \<and> extractContextInfo fmtv (fst (NewLogger (Some []) out)) ctx = Inr []
   \<and> Info fmtv (fst (NewLogger None out)) ctx message out' =
       Inr (out' @ [colorWhite @ ''[INFO]'' @ colorReset @ '' '' @ message])
   \<and> Info fmtv (fst (NewLogger (Some []) out)) ctx message out' =
       Inr (out' @ [colorWhite @ ''[INFO]'' @ colorReset @ '' '' @ message])
   \<and> Success fmtv (fst (NewLogger None out)) ctx message out' =
       Inr (out' @ [colorGreen @ ''[SUCCESS]'' @ colorReset @ '' '' @ message])
   \<and> Success fmtv (fst (NewLogger (Some []) out)) ctx message out' =
       Inr (out' @ [colorGreen @ ''[SUCCESS]'' @ colorReset @ '' '' @ message])
   \<and> Error fmtv (fst (NewLogger None out)) ctx message out' =
       Inr (out' @ [colorRed @ ''[ERROR]'' @ colorReset @ '' '' @ message])
   \<and> Error fmtv (fst (NewLogger (Some []) out)) ctx message out' =
       Inr (out' @ [colorRed @ ''[ERROR]'' @ colorReset @ '' '' @ message])"
  by (simp add: NewLogger_def log_Print_def Info_def Success_def Error_def LogWithColor_def
      extractContextInfo_def)

text \<open>
  Claim C8. A configured key whose value is defined in the context is included in the
  context section even when the value renders as the empty string: its part is
  \<^verbatim>\<open>key=\<close>, the extractor's result is not empty and the line has a context section.
\<close>

theorem C8_empty_rendering:
  assumes "k \<in> set (elems (contextKeys s))" and "lookup ctx k = Some v" and "fmtv v = []"
  shows "\<exists>parts. collect_parts fmtv ctx (elems (contextKeys s)) [] = Inr parts
     \<and> k @ ''='' \<in> set parts
     \<and> extractContextInfo fmtv s ctx = Inr (comma_join parts)
     \<and> comma_join parts \<noteq> []
     \<and> Info fmtv s ctx message out =
         Inr (out @ [colorWhite @ ''[INFO]'' @ colorReset @ '' '' @ message @
                     '' {'' @ comma_join parts @ ''}''])"
proof (intro exI conjI)
  let ?K = "elems (contextKeys s)"
  show "collect_parts fmtv ctx ?K [] = Inr (context_pairs fmtv ?K ctx)"
    using assms(2) by (rule collect_parts_eq)
  have k: "k \<in> set (resolved_keys ?K ctx)"
    using assms(1,2) by (simp add: set_resolved_keys)
  then have "pair_of fmtv ctx k \<in> set (context_pairs fmtv ?K ctx)"
    by (simp add: context_pairs_def)
  then show "k @ ''='' \<in> set (context_pairs fmtv ?K ctx)"
    using assms(2,3) by (simp add: pair_of_def)
  show "extractContextInfo fmtv s ctx = Inr (comma_join (context_pairs fmtv ?K ctx))"
    by (rule extractContextInfo_eq)
  from k have r: "resolved_keys ?K ctx \<noteq> []"
    by auto
  then show "comma_join (context_pairs fmtv ?K ctx) \<noteq> []"
    by (simp add: comma_join_context_pairs_Nil)
  from r show "Info fmtv s ctx message out =
      Inr (out @ [colorWhite @ ''[INFO]'' @ colorReset @ '' '' @ message @
                  '' {'' @ comma_join (context_pairs fmtv ?K ctx) @ ''}''])"
    by (simp add: Info_def LogWithColor_eq plain_line_def)
qed

text \<open>
  One configured key, bound to the empty string.
\<close>

theorem C8_empty_rendering_witness:
  "''request_id'' \<in> set (elems (contextKeys \<lparr>contextKeys = Some [''request_id'']\<rparr>))
   \<and> lookup (Some (background(''request_id'' \<mapsto> []))) ''request_id'' = Some []
   \<and> id ([] :: string) = []
   \<and> extractContextInfo id \<lparr>contextKeys = Some [''request_id'']\<rparr>
        (Some (background(''request_id'' \<mapsto> []))) = Inr ''request_id=''
   \<and> Info id \<lparr>contextKeys = Some [''request_id'']\<rparr>
        (Some (background(''request_id'' \<mapsto> []))) ''empty value'' [] =
       Inr [colorWhite @ ''[INFO]'' @ colorReset @ '' empty value {request_id=}'']"
  using C8_empty_rendering [of "''request_id''" "\<lparr>contextKeys = Some [''request_id'']\<rparr>"
      "Some (background(''request_id'' \<mapsto> []))" "[]" id "''empty value''" "[]"]
  by (auto simp: background_def)

text \<open>
  Claim C9, as amended. The logger adds no state of its own to a line: when the rendering
  of the context's values neither reads nor changes program state, the context is absent
  or its \<^verbatim>\<open>Value\<close> returns the same answer in every state and leaves the state as it is, and
  the logger holds the same key list at both calls, then calling the same operation twice
  with the same context and message emits the same line twice, whatever the sink holds:
  the line is the one of the severity, the message and the extractor's result, which does
  not depend on the state.
\<close>

theorem C9_deterministic:
  assumes "\<forall>v w. fmtv v w = (f v, w)"
    and "is_nil ctx \<or> (\<forall>k w. Value_eff ctx k w = Inr (g k, w))"
    and "contextKeys s2 = contextKeys s1"
  shows "\<exists>e l1 l2 l3.
     (\<forall>w. extractContextInfo_eff fmtv s1 ctx w = Inr (e, w))
     \<and> l1 = colorWhite @ ''[INFO]'' @ colorReset @ '' '' @ message @ context_section e
     \<and> l2 = colorGreen @ ''[SUCCESS]'' @ colorReset @ '' '' @ message @ context_section e
     \<and> l3 = colorRed @ ''[ERROR]'' @ colorReset @ '' '' @ message @ context_section e
     \<and> (\<forall>w out. Info_eff fmtv s1 ctx message w out = Inr (w, out @ [l1])
            \<and> Info_eff fmtv s2 ctx message w (out @ [l1]) = Inr (w, out @ [l1, l1]))
     \<and> (\<forall>w out. Success_eff fmtv s1 ctx message w out = Inr (w, out @ [l2])
            \<and> Success_eff fmtv s2 ctx message w (out @ [l2]) = Inr (w, out @ [l2, l2]))
     \<and> (\<forall>w out. Error_eff fmtv s1 ctx message w out = Inr (w, out @ [l3])
            \<and> Error_eff fmtv s2 ctx message w (out @ [l3]) = Inr (w, out @ [l3, l3]))"
proof -
  define ctx0 where "ctx0 = (if is_nil ctx then None else Some g)"
  define e where "e = comma_join (context_pairs f (elems (contextKeys s1)) ctx0)"
  have fm: "fmtv = stateless f"
    using assms(1) by (rule stateless_eq)
  have cx: "ctx = as_Context ctx0"
    unfolding ctx0_def using assms(2) by (rule as_Context_eq)
  have x1: "extractContextInfo_eff fmtv s1 ctx w = Inr (e, w)" for w
    unfolding fm cx e_def by (rule extractContextInfo_eff_stateless)
  have x2: "extractContextInfo_eff fmtv s2 ctx w = Inr (e, w)" for w
    unfolding fm cx e_def using extractContextInfo_eff_stateless [of f s2 ctx0 w] assms(3)
    by simp
  have l1: "LogWithColor_eff fmtv s1 ctx color level message w out =
      Inr (w, out @ [color @ ''['' @ level @ '']'' @ colorReset @ '' '' @ message @
        context_section e])" for color level w out
    using LogWithColor_eff_line [OF x1, where color = color and level = level
        and message = message and out = out] by (simp add: plain_line_def)
  have l2: "LogWithColor_eff fmtv s2 ctx color level message w out =
      Inr (w, out @ [color @ ''['' @ level @ '']'' @ colorReset @ '' '' @ message @
        context_section e])" for color level w out
    using LogWithColor_eff_line [OF x2, where color = color and level = level
        and message = message and out = out] by (simp add: plain_line_def)
  show ?thesis
    using x1 by (intro exI conjI allI)
      (simp_all add: Info_eff_def Success_eff_def Error_eff_def l1 l2)
qed

text \<open>
  Two calls of Info with the context of \<^verbatim>\<open>TestContextExtraction\<close>, string values
  rendered as themselves.
\<close>

theorem C9_deterministic_witness:
  "Info_eff (stateless id) \<lparr>contextKeys = Some request_keys\<rparr>
       (as_Context (Some request_ctx)) ''test message'' (0 :: nat) [] =
     Inr (0, [colorWhite @ ''[INFO]'' @ colorReset @
              '' test message {request_id=abc123, user_id=user-456}''])
   \<and> Info_eff (stateless id) \<lparr>contextKeys = Some request_keys\<rparr>
       (as_Context (Some request_ctx)) ''test message'' (0 :: nat)
       [colorWhite @ ''[INFO]'' @ colorReset @
        '' test message {request_id=abc123, user_id=user-456}''] =
     Inr (0, [colorWhite @ ''[INFO]'' @ colorReset @
              '' test message {request_id=abc123, user_id=user-456}'',
              colorWhite @ ''[INFO]'' @ colorReset @
              '' test message {request_id=abc123, user_id=user-456}''])"
proof -
  have r: "\<forall>v w. stateless id v (w :: nat) = (id (v :: string), w)"
    by (simp add: stateless_def)
  have c: "is_nil (as_Context (Some request_ctx) :: (string, nat) Context option)
      \<or> (\<forall>k w. Value_eff (as_Context (Some request_ctx) :: (string, nat) Context option) k w
            = Inr (request_ctx k, w))"
    by (simp add: as_Context_def)
  have k: "contextKeys \<lparr>contextKeys = Some request_keys\<rparr> =
      contextKeys \<lparr>contextKeys = Some request_keys\<rparr>"
    by (rule refl)
  show ?thesis
    using C9_deterministic [OF r c k, where message = "''test message''"]
    by (simp add: Info_eff_def LogWithColor_eff_def extractContextInfo_eff_def log_Print_def
        as_Context_def stateless_def request_keys_def request_ctx_def background_def)
qed

text \<open>
  Claim C9 as first stated holds for every context. The verb \<^verbatim>\<open>%v\<close> runs the \<^verbatim>\<open>String\<close>
  method of a value, and with a value whose method counts its calls two calls of Info
  with the same logger, context and message emit two different lines.
\<close>

theorem C9_counterexample:
  "Info_eff counting \<lparr>contextKeys = Some [''request_id'']\<rparr>
       (as_Context (Some request_ctx)) ''test message'' 0 [] =
     Inr (Suc 0, [colorWhite @ ''[INFO]'' @ colorReset @ '' test message {request_id=abc123}''])
   \<and> Info_eff counting \<lparr>contextKeys = Some [''request_id'']\<rparr>
       (as_Context (Some request_ctx)) ''test message'' (Suc 0)
       [colorWhite @ ''[INFO]'' @ colorReset @ '' test message {request_id=abc123}''] =
     Inr (Suc (Suc 0),
          [colorWhite @ ''[INFO]'' @ colorReset @ '' test message {request_id=abc123}'',
           colorWhite @ ''[INFO]'' @ colorReset @ '' test message {request_id=abc123+}''])
   \<and> colorWhite @ ''[INFO]'' @ colorReset @ '' test message {request_id=abc123}'' \<noteq>
       colorWhite @ ''[INFO]'' @ colorReset @ '' test message {request_id=abc123+}''"
  by (simp add: Info_eff_def LogWithColor_eff_def extractContextInfo_eff_def log_Print_def
      as_Context_def counting_def request_ctx_def background_def)

text \<open>
  Claim C10. Extraction does not de-duplicate the configured keys: a key that resolves in
  the context occurs among the extracted keys as many times as in the configured list,
  the parts are the renderings of the extracted keys position by position, and each
  configured position of the key has its own part \<^verbatim>\<open>key=value\<close>, placed after the parts
  of the resolving keys configured before it.
\<close>

theorem C10_no_deduplication:
  assumes "lookup ctx k = Some v"
  shows "\<exists>parts. collect_parts fmtv ctx K [] = Inr parts
     \<and> extractContextInfo fmtv \<lparr>contextKeys = Some K\<rparr> ctx = Inr (comma_join parts)
     \<and> parts = map (pair_of fmtv ctx) (resolved_keys K ctx)
     \<and> count_list (resolved_keys K ctx) k = count_list K k
     \<and> (\<forall>i < length K. K ! i = k \<longrightarrow>
           length (resolved_keys (take i K) ctx) < length parts
           \<and> parts ! length (resolved_keys (take i K) ctx) = k @ ''='' @ fmtv v)"
proof (intro exI conjI)
  show "collect_parts fmtv ctx K [] = Inr (context_pairs fmtv K ctx)"
    using assms by (rule collect_parts_eq)
  show "extractContextInfo fmtv \<lparr>contextKeys = Some K\<rparr> ctx =
      Inr (comma_join (context_pairs fmtv K ctx))"
    using extractContextInfo_eq [of fmtv "\<lparr>contextKeys = Some K\<rparr>" ctx] by simp
  show "context_pairs fmtv K ctx = map (pair_of fmtv ctx) (resolved_keys K ctx)"
    by (simp add: context_pairs_def)
  show "count_list (resolved_keys K ctx) k = count_list K k"
    using assms by (rule count_list_resolved_keys)
  show "\<forall>i < length K. K ! i = k \<longrightarrow>
      length (resolved_keys (take i K) ctx) < length (context_pairs fmtv K ctx)
      \<and> context_pairs fmtv K ctx ! length (resolved_keys (take i K) ctx) = k @ ''='' @ fmtv v"
    using context_pairs_at_position [OF assms] by blast
qed

text \<open>
  The key \<^verbatim>\<open>request_id\<close> configured twice, around \<^verbatim>\<open>user_id\<close>.
\<close>

theorem C10_no_deduplication_witness:
  "lookup (Some request_ctx) ''request_id'' = Some ''abc123''
   \<and> collect_parts id (Some request_ctx) [''request_id'', ''user_id'', ''request_id''] [] =
       Inr [''request_id=abc123'', ''user_id=user-456'', ''request_id=abc123'']
   \<and> extractContextInfo id \<lparr>contextKeys = Some [''request_id'', ''user_id'', ''request_id'']\<rparr>
        (Some request_ctx) =
       Inr ''request_id=abc123, user_id=user-456, request_id=abc123''
   \<and> count_list [''request_id'', ''user_id'', ''request_id''] ''request_id'' = 2"
  using C10_no_deduplication [of "Some request_ctx" "''request_id''" "''abc123''" id
      "[''request_id'', ''user_id'', ''request_id'']"]
  by (auto simp: request_ctx_def background_def resolved_keys_def pair_of_def)

end
